theory Spec2Isabelle
  imports Main "HOL-Library.Word"
begin

unbundle bit_operations_syntax

section \<open>Data model of microbian.c\<close>

text \<open>
  Addresses are integers. A pointer that may be NULL is an \<open>addr option\<close>, with
  \<open>None\<close> for NULL. Process descriptors live in a heap \<open>procs\<close> indexed by the
  address \<open>new_proc\<close> returned for them; message buffers live in a heap \<open>msgs\<close>
  indexed by the address the caller passed; the stacks are words of \<open>mem\<close>.
\<close>

type_synonym addr = int
type_synonym pref = addr
type_synonym mref = addr

text \<open>The values of \<open>p_state\<close> (the \<open>#define\<close>s DEAD 0 .. IDLING 5).\<close>

datatype pstate = DEAD | ACTIVE | SENDING | RECEIVING | SENDREC | IDLING

text \<open>
  Modelled from the spec: the type \<open>message\<close> is declared in microbian.h, which is not
  among the sources. The spec gives it two header fields, sender and type, stamped by the
  kernel, and a body of payload bytes that the kernel copies by value and never inspects.
\<close>

record message =
  m_sender :: int
  m_type :: int
  m_body :: "8 word list"

record proc =
  p_pid :: int
  p_name :: string
  p_state :: pstate
  p_sp :: addr
  p_stack :: addr
  p_stksize :: int
  p_priority :: int
  p_waiting :: "pref option"
  p_pending :: int
  p_msgtype :: int
  p_message :: "mref option"
  p_next :: "pref option"

record queue =
  q_head :: "pref option"
  q_tail :: "pref option"

text \<open>
  The kernel's global variables. \<open>break0\<close> and \<open>break2\<close> are the source's
  \<open>__break\<close> and \<open>__break2\<close>. The arrays \<open>os_ptable[NPROCS]\<close>, \<open>os_readyq[3]\<close> and
  \<open>os_handler[32]\<close> are functions of the index; every access checks the index against
  the array's bounds in the function that makes it. \<open>nvic\<close> is the set of enabled
  interrupt lines and \<open>pendsv\<close> the pending context-switch request. \<open>oob_loads\<close> is a
  history variable: the indices outside \<open>0 .. NPROCS - 1\<close> at which \<open>os_ptable\<close> has been
  read, in order. \<open>ptable_fault i\<close> says, for an index \<open>i\<close> outside the table, that the word
  \<open>os_ptable[i]\<close> lies outside the memory of the board, so that loading it raises a
  HardFault; the memory map is a parameter of the state, the sources do not fix it.
\<close>

record kstate =
  break0 :: addr
  break2 :: addr
  os_ptable :: "int \<Rightarrow> pref option"
  os_nprocs :: int
  os_current :: "pref option"
  idle_proc :: "pref option"
  os_readyq :: "int \<Rightarrow> queue"
  os_handler :: "int \<Rightarrow> int"
  procs :: "pref \<Rightarrow> proc"
  msgs :: "mref \<Rightarrow> message"
  mem :: "addr \<Rightarrow> 32 word"
  nvic :: "int set"
  pendsv :: bool
  oob_loads :: "int list"
  ptable_fault :: "int \<Rightarrow> bool"

text \<open>
  How a kernel routine ends: it returns (\<open>Ok\<close>), it calls \<open>panic\<close> with a format string
  and its integer arguments (\<open>panic\<close> prints and spins forever; the state is the one at
  the call), an \<open>assert\<close> fails, it dereferences NULL or indexes an array out of bounds
  where the value is then used (\<open>Fault\<close>), or one of its loops never ends (\<open>Diverge\<close>).
\<close>

datatype 'a result =
    Ok 'a
  | Panic string "int list" kstate
  | AssertFail string kstate
  | Fault string
  | Diverge

fun rbind :: "'a result \<Rightarrow> ('a \<Rightarrow> 'b result) \<Rightarrow> 'b result" where
  "rbind (Ok x) f = f x"
| "rbind (Panic fmt args s) f = Panic fmt args s"
| "rbind (AssertFail c s) f = AssertFail c s"
| "rbind (Fault w) f = Fault w"
| "rbind Diverge f = Diverge"

subsection \<open>Constants\<close>

definition NPROCS :: int where "NPROCS = 32"

definition BLANK :: "32 word" where "BLANK = 0xdeadbeef"

definition IDLE_STACK :: int where "IDLE_STACK = 128"

definition INIT_PSR :: "32 word" where "INIT_PSR = 0x01000000"

definition R0_SAVE :: int where "R0_SAVE = 8"
definition R1_SAVE :: int where "R1_SAVE = 9"
definition R2_SAVE :: int where "R2_SAVE = 10"
definition LR_SAVE :: int where "LR_SAVE = 13"
definition PC_SAVE :: int where "PC_SAVE = 14"
definition PSR_SAVE :: int where "PSR_SAVE = 15"

definition SYS_YIELD :: int where "SYS_YIELD = 0"
definition SYS_SEND :: int where "SYS_SEND = 1"
definition SYS_RECEIVE :: int where "SYS_RECEIVE = 2"
definition SYS_SENDREC :: int where "SYS_SENDREC = 3"
definition SYS_EXIT :: int where "SYS_EXIT = 4"
definition SYS_DUMP :: int where "SYS_DUMP = 5"

text \<open>
  \<open>sizeof(struct proc)\<close> on the 32-bit target: twelve fields, eleven of four bytes and
  the sixteen-byte name.
\<close>

definition sizeof_proc :: int where "sizeof_proc = 60"

text \<open>
  Modelled from the spec: the priority levels are declared in microbian.h, which is not
  among the sources. The spec gives P_HANDLER = 0, P_HIGH = 1, P_LOW = 2 and P_IDLE a
  sentinel of at least 3; \<open>os_init\<close> gives the idle process the priority 3.
\<close>

definition P_HANDLER :: int where "P_HANDLER = 0"
definition P_HIGH :: int where "P_HIGH = 1"
definition P_LOW :: int where "P_LOW = 2"
definition P_IDLE :: int where "P_IDLE = 3"

text \<open>
  Modelled from the spec: the reserved message types ANY, INTERRUPT and REPLY and the
  sender id HARDWARE are declared in microbian.h, which is not among the sources. The spec
  makes message types non-negative integers with ANY a wildcard outside them, and HARDWARE
  a sentinel (0xFFFF or similar) that is never a real PID. The theorems below use these
  constants by name only; their values matter in the evaluations at concrete states.
\<close>

definition ANY :: int where "ANY = -1"
definition INTERRUPT :: int where "INTERRUPT = 1"
definition REPLY :: int where "REPLY = 2"
definition HARDWARE :: int where "HARDWARE = 0xFFFF"

section \<open>Process queues\<close>

text \<open>\<open>make_ready\<close>: add process \<open>p\<close> to the end of the queue for \<open>prio\<close>.\<close>

definition make_ready :: "kstate \<Rightarrow> pref \<Rightarrow> int \<Rightarrow> kstate result" where
  "make_ready s p prio =
     (if prio = P_IDLE then Ok s
      else if prio < 0 \<or> 3 \<le> prio then Fault ''os_readyq index out of bounds''
      else
        let P1 = (procs s)(p := (procs s p)\<lparr>p_state := ACTIVE, p_next := None\<rparr>);
            q = os_readyq s prio
        in case q_head q of
             None \<Rightarrow>
               Ok (s\<lparr>procs := P1,
                      os_readyq := (os_readyq s)(prio := q\<lparr>q_head := Some p, q_tail := Some p\<rparr>)\<rparr>)
           | Some h \<Rightarrow>
               (case q_tail q of
                  None \<Rightarrow> Fault ''q_tail is NULL''
                | Some t \<Rightarrow>
                    Ok (s\<lparr>procs := P1(t := (P1 t)\<lparr>p_next := Some p\<rparr>),
                           os_readyq := (os_readyq s)(prio := q\<lparr>q_tail := Some p\<rparr>)\<rparr>)))"

text \<open>\<open>choose_proc\<close>: the loop over the three queues, from index \<open>p\<close> on.\<close>

function choose_scan :: "kstate \<Rightarrow> int \<Rightarrow> kstate" where
  "choose_scan s p =
     (if p < 3 then
        (case q_head (os_readyq s p) of
           Some h \<Rightarrow>
             s\<lparr>os_current := Some h,
               os_readyq := (os_readyq s)(p := (os_readyq s p)\<lparr>q_head := p_next (procs s h)\<rparr>)\<rparr>
         | None \<Rightarrow> choose_scan s (p + 1))
      else s\<lparr>os_current := idle_proc s\<rparr>)"
  by pat_completeness auto
termination
  by (relation "measure (\<lambda>(s, p). nat (3 - p))") auto

declare choose_scan.simps [simp del]

definition choose_proc :: "kstate \<Rightarrow> kstate" where
  "choose_proc s = choose_scan s 0"

section \<open>Send and receive\<close>

definition accept :: "proc \<Rightarrow> int \<Rightarrow> bool" where
  "accept pdest ty \<longleftrightarrow>
     p_state pdest = RECEIVING \<and> (p_msgtype pdest = ANY \<or> p_msgtype pdest = ty)"

definition set_state ::
  "(pref \<Rightarrow> proc) \<Rightarrow> pref \<Rightarrow> pstate \<Rightarrow> int \<Rightarrow> mref option \<Rightarrow> (pref \<Rightarrow> proc)" where
  "set_state P p st ty msg = P(p := (P p)\<lparr>p_state := st, p_msgtype := ty, p_message := msg\<rparr>)"

text \<open>
  \<open>deliver\<close>: copy a message and fill in the standard fields. Both pointers may be NULL.
\<close>

definition deliver ::
  "(mref \<Rightarrow> message) \<Rightarrow> mref option \<Rightarrow> int \<Rightarrow> int \<Rightarrow> mref option \<Rightarrow> (mref \<Rightarrow> message)" where
  "deliver M buf src ty msg =
     (case buf of
        None \<Rightarrow> M
      | Some b \<Rightarrow>
          let M1 = (case msg of None \<Rightarrow> M | Some m \<Rightarrow> M(b := M m))
          in M1(b := (M1 b)\<lparr>m_sender := src, m_type := ty\<rparr>))"

text \<open>
  The \<open>while\<close> loop of \<open>enqueue\<close>: follow \<open>p_next\<close> from \<open>r\<close> to the last descriptor
  of the chain. On a cyclic chain the loop never ends, which is the value \<open>None\<close>.
\<close>

partial_function (option) last_proc :: "(pref \<Rightarrow> proc) \<Rightarrow> pref \<Rightarrow> pref option" where
  "last_proc P r = (case p_next (P r) of None \<Rightarrow> Some r | Some n \<Rightarrow> last_proc P n)"

declare last_proc.simps [code]

text \<open>\<open>enqueue\<close>: add the current process to the sender queue of \<open>pdest\<close>.\<close>

definition enqueue :: "kstate \<Rightarrow> pref \<Rightarrow> kstate result" where
  "enqueue s pdest =
     (case os_current s of
        None \<Rightarrow> Fault ''os_current is NULL''
      | Some cur \<Rightarrow>
          let P1 = (procs s)(cur := (procs s cur)\<lparr>p_next := None\<rparr>)
          in (case p_waiting (P1 pdest) of
                None \<Rightarrow> Ok (s\<lparr>procs := P1(pdest := (P1 pdest)\<lparr>p_waiting := Some cur\<rparr>)\<rparr>)
              | Some r0 \<Rightarrow>
                  (case last_proc P1 r0 of
                     None \<Rightarrow> Diverge
                   | Some r \<Rightarrow> Ok (s\<lparr>procs := P1(r := (P1 r)\<lparr>p_next := Some cur\<rparr>)\<rparr>))))"

text \<open>
  The load \<open>os_ptable[dest]\<close>. The table has NPROCS entries. A load outside them that
  touches no memory raises a HardFault, and \<open>hardfault_handler\<close> panics; any other load
  outside them yields an indeterminate pointer, written \<open>None\<close> here (no caller uses it
  without a further check except \<open>interrupt\<close>, where it is a \<open>Fault\<close>), and is recorded
  in \<open>oob_loads\<close>.
\<close>

definition ptable_load :: "kstate \<Rightarrow> int \<Rightarrow> (pref option \<times> kstate) result" where
  "ptable_load s dest =
     (if 0 \<le> dest \<and> dest < NPROCS then Ok (os_ptable s dest, s)
      else if ptable_fault s dest then Panic ''HardFault'' [] s
      else Ok (None, s\<lparr>oob_loads := oob_loads s @ [dest]\<rparr>))"

text \<open>
  The destination check shared by \<open>mini_send\<close> and \<open>mini_sendrec\<close>, in the source's
  order: the table is read first, then
  \<open>dest < 0 || dest >= os_nprocs || pdest->p_state == DEAD\<close> is evaluated left to right.
\<close>

definition check_dest :: "kstate \<Rightarrow> int \<Rightarrow> (pref \<times> kstate) result" where
  "check_dest s dest =
     rbind (ptable_load s dest) (\<lambda>(pdest, s1).
       if dest < 0 \<or> os_nprocs s1 \<le> dest
       then Panic ''Sending to a non-existent process %d'' [dest] s1
       else case pdest of
              None \<Rightarrow> Fault ''pdest is NULL''
            | Some d \<Rightarrow>
                if p_state (procs s1 d) = DEAD
                then Panic ''Sending to a non-existent process %d'' [dest] s1
                else Ok (d, s1))"

definition mini_send :: "kstate \<Rightarrow> int \<Rightarrow> int \<Rightarrow> mref option \<Rightarrow> kstate result" where
  "mini_send s dest ty msg =
     (case os_current s of
        None \<Rightarrow> Fault ''os_current is NULL''
      | Some cur \<Rightarrow>
          let src = p_pid (procs s cur)
          in rbind (check_dest s dest) (\<lambda>(d, s1).
               if accept (procs s1 d) ty then
                 make_ready (s1\<lparr>msgs := deliver (msgs s1) (p_message (procs s1 d)) src ty msg\<rparr>)
                   d (p_priority (procs s1 d))
               else
                 rbind (enqueue (s1\<lparr>procs := set_state (procs s1) cur SENDING ty msg\<rparr>) d)
                   (\<lambda>s2. Ok (choose_proc s2))))"

text \<open>
  The \<open>for\<close> loop of \<open>mini_receive\<close> up to its \<open>return\<close>: walk the sender queue from
  \<open>psrc\<close>, with \<open>prev\<close> the descriptor visited before, to the first sender whose type
  the filter admits. \<open>Some None\<close>: the walk reached NULL. \<open>None\<close>: the walk never ends.
\<close>

partial_function (option) find_sender ::
  "(pref \<Rightarrow> proc) \<Rightarrow> int \<Rightarrow> pref option \<Rightarrow> pref option \<Rightarrow> (pref option \<times> pref) option option" where
  "find_sender P ty psrc prev =
     (case psrc of
        None \<Rightarrow> Some None
      | Some p \<Rightarrow>
          if ty = ANY \<or> p_msgtype (P p) = ty then Some (Some (prev, p))
          else find_sender P ty (p_next (P p)) (Some p))"

declare find_sender.simps [code]

definition mini_receive :: "kstate \<Rightarrow> int \<Rightarrow> mref option \<Rightarrow> kstate result" where
  "mini_receive s ty msg =
     (case os_current s of
        None \<Rightarrow> Fault ''os_current is NULL''
      | Some cur \<Rightarrow>
          if p_pending (procs s cur) \<noteq> 0 \<and> (ty = ANY \<or> ty = INTERRUPT) then
            Ok (s\<lparr>procs := (procs s)(cur := (procs s cur)\<lparr>p_pending := 0\<rparr>),
                   msgs := deliver (msgs s) msg HARDWARE INTERRUPT None\<rparr>)
          else
           (case (if ty \<noteq> INTERRUPT
                  then find_sender (procs s) ty (p_waiting (procs s cur)) None
                  else Some None) of
              None \<Rightarrow> Diverge
            | Some (Some (prev, psrc)) \<Rightarrow>
                let P1 = (case prev of
                            None \<Rightarrow>
                              (procs s)(cur := (procs s cur)\<lparr>p_waiting := p_next (procs s psrc)\<rparr>)
                          | Some pv \<Rightarrow>
                              (procs s)(cur := (procs s cur)\<lparr>p_next := p_next (procs s psrc)\<rparr>));
                    s1 = s\<lparr>procs := P1,
                           msgs := deliver (msgs s) msg (p_pid (P1 psrc)) (p_msgtype (P1 psrc))
                                     (p_message (P1 psrc))\<rparr>
                in (if p_state (procs s1 psrc) = SENDING
                    then make_ready s1 psrc (p_priority (procs s1 psrc))
                    else if p_state (procs s1 psrc) = SENDREC
                    then Ok (s1\<lparr>procs := set_state (procs s1) psrc RECEIVING REPLY msg\<rparr>)
                    else AssertFail ''psrc->p_state == SENDREC'' s1)
            | Some None \<Rightarrow>
                Ok (choose_proc (s\<lparr>procs := set_state (procs s) cur RECEIVING ty msg\<rparr>))))"

definition mini_sendrec :: "kstate \<Rightarrow> int \<Rightarrow> int \<Rightarrow> mref option \<Rightarrow> kstate result" where
  "mini_sendrec s dest ty msg =
     (case os_current s of
        None \<Rightarrow> Fault ''os_current is NULL''
      | Some cur \<Rightarrow>
          let src = p_pid (procs s cur)
          in rbind (check_dest s dest) (\<lambda>(d, s1).
               rbind
                 (if accept (procs s1 d) ty then
                    rbind
                      (make_ready
                         (s1\<lparr>msgs := deliver (msgs s1) (p_message (procs s1 d)) src ty msg\<rparr>)
                         d (p_priority (procs s1 d)))
                      (\<lambda>s2. Ok (s2\<lparr>procs := set_state (procs s2) cur RECEIVING REPLY msg\<rparr>))
                  else
                    enqueue (s1\<lparr>procs := set_state (procs s1) cur SENDREC ty msg\<rparr>) d)
                 (\<lambda>s3. Ok (choose_proc s3))))"

section \<open>Interrupt handling\<close>

text \<open>
  Modelled from the spec: \<open>enable_irq\<close>, \<open>disable_irq\<close> and \<open>reschedule\<close> come from
  hardware.h, which is not among the sources. The spec has the first two enable and
  disable one interrupt line at the NVIC and the third request a PendSV.
\<close>

definition enable_irq :: "kstate \<Rightarrow> int \<Rightarrow> kstate" where
  "enable_irq s irq = s\<lparr>nvic := insert irq (nvic s)\<rparr>"

definition disable_irq :: "kstate \<Rightarrow> int \<Rightarrow> kstate" where
  "disable_irq s irq = s\<lparr>nvic := nvic s - {irq}\<rparr>"

definition reschedule :: "kstate \<Rightarrow> kstate" where
  "reschedule s = s\<lparr>pendsv := True\<rparr>"

definition connect :: "kstate \<Rightarrow> int \<Rightarrow> kstate result" where
  "connect s irq =
     (if irq < 0 then Panic ''Can't connect to CPU exceptions'' [] s
      else case os_current s of
             None \<Rightarrow> Fault ''os_current is NULL''
           | Some cur \<Rightarrow>
               let s1 = s\<lparr>procs := (procs s)(cur := (procs s cur)\<lparr>p_priority := 0\<rparr>)\<rparr>
               in if 32 \<le> irq then Fault ''os_handler index out of bounds''
                  else Ok (enable_irq
                             (s1\<lparr>os_handler := (os_handler s1)(irq := p_pid (procs s1 cur))\<rparr>) irq))"

definition priority :: "kstate \<Rightarrow> int \<Rightarrow> kstate result" where
  "priority s p =
     (if p < 0 \<or> P_LOW < p then Panic (''Bad priority %d'' @ [CHR 0x0A]) [p] s
      else case os_current s of
             None \<Rightarrow> Fault ''os_current is NULL''
           | Some cur \<Rightarrow> Ok (s\<lparr>procs := (procs s)(cur := (procs s cur)\<lparr>p_priority := p\<rparr>)\<rparr>))"

definition interrupt :: "kstate \<Rightarrow> int \<Rightarrow> kstate result" where
  "interrupt s dest =
     rbind (ptable_load s dest) (\<lambda>(pdest, s1).
       case pdest of
         None \<Rightarrow> Fault ''pdest is NULL''
       | Some d \<Rightarrow>
           if accept (procs s1 d) INTERRUPT then
             rbind
               (make_ready
                  (s1\<lparr>msgs := deliver (msgs s1) (p_message (procs s1 d)) HARDWARE INTERRUPT None\<rparr>)
                  d P_HANDLER)
               (\<lambda>s2. case os_current s2 of
                        None \<Rightarrow> Fault ''os_current is NULL''
                      | Some cur \<Rightarrow>
                          if 0 < p_priority (procs s2 cur) then Ok (reschedule s2) else Ok s2)
           else Ok (s1\<lparr>procs := (procs s1)(d := (procs s1 d)\<lparr>p_pending := 1\<rparr>)\<rparr>))"

text \<open>
  \<open>default_handler\<close>; the argument \<open>irq\<close> is what \<open>active_irq()\<close> returned.
\<close>

definition default_handler :: "kstate \<Rightarrow> int \<Rightarrow> kstate result" where
  "default_handler s irq =
     (if irq < 0 then Panic ''Unexpected interrupt %d'' [irq] s
      else if 32 \<le> irq then Fault ''os_handler index out of bounds''
      else let task = os_handler s irq
           in if task = 0 then Panic ''Unexpected interrupt %d'' [irq] s
              else interrupt (disable_irq s irq) task)"

section \<open>Storage allocation and initialisation\<close>

text \<open>The conversions between \<open>int\<close> and \<open>unsigned\<close>, both of 32 bits.\<close>

definition to_unsigned :: "int \<Rightarrow> int" where
  "to_unsigned x = x mod 2 ^ 32"

definition to_signed :: "int \<Rightarrow> int" where
  "to_signed u = (if u mod 2 ^ 32 < 2 ^ 31 then u mod 2 ^ 32 else u mod 2 ^ 32 - 2 ^ 32)"

definition roundup :: "int \<Rightarrow> int \<Rightarrow> int" where
  "roundup x n = (x + (n - 1)) AND NOT (n - 1)"

text \<open>
  Pointers are 32 bits wide: \<open>wadd a n\<close> is the address \<open>n\<close> bytes after \<open>a\<close>.
\<close>

definition wadd :: "addr \<Rightarrow> int \<Rightarrow> addr" where
  "wadd a n = (a + n) mod 2 ^ 32"

text \<open>
  In \<open>sbrk\<close> the pointer difference is a signed integer, compared with the \<open>int\<close>
  argument.
\<close>

definition sbrk :: "kstate \<Rightarrow> int \<Rightarrow> (addr \<times> kstate) result" where
  "sbrk s inc =
     (if to_signed (break2 s - break0 s) < inc then Panic ''Phos is out of memory'' [] s
      else Ok (break0 s, s\<lparr>break0 := wadd (break0 s) inc\<rparr>))"

text \<open>
  In \<open>new_proc\<close> the pointer difference is compared with a \<open>sizeof\<close>, so as unsigned.
\<close>

definition new_proc :: "kstate \<Rightarrow> (pref \<times> kstate) result" where
  "new_proc s =
     (if to_unsigned (break2 s - break0 s) < sizeof_proc then Panic ''No space for process'' [] s
      else Ok (wadd (break2 s) (- sizeof_proc), s\<lparr>break2 := wadd (break2 s) (- sizeof_proc)\<rparr>))"

text \<open>
  The loop of \<open>init_proc\<close> that blanks the stack: \<open>p\<close> steps by one word (four bytes)
  while it is below \<open>sp\<close>, both being 32-bit pointers. \<open>None\<close>: the loop never ends.
  \<open>blanked m p sp\<close> is the memory in which the words from \<open>p\<close> up to \<open>sp\<close> are BLANK.
\<close>

partial_function (option) blank_loop ::
  "(addr \<Rightarrow> 32 word) \<Rightarrow> addr \<Rightarrow> addr \<Rightarrow> (addr \<Rightarrow> 32 word) option" where
  "blank_loop m p sp = (if p < sp then blank_loop (m(p := BLANK)) (wadd p 4) sp else Some m)"

declare blank_loop.simps [code]

definition blanked :: "(addr \<Rightarrow> 32 word) \<Rightarrow> addr \<Rightarrow> addr \<Rightarrow> (addr \<Rightarrow> 32 word)" where
  "blanked m p sp = (\<lambda>a. if p \<le> a \<and> a < sp \<and> (a - p) mod 4 = 0 then BLANK else m a)"

definition init_proc :: "kstate \<Rightarrow> string \<Rightarrow> int \<Rightarrow> (pref \<times> kstate) result" where
  "init_proc s name stksize =
     (if NPROCS \<le> os_nprocs s then Panic ''Too many processes'' [] s
      else
        let pid = os_nprocs s;
            s1 = s\<lparr>os_nprocs := os_nprocs s + 1\<rparr>
        in rbind (new_proc s1) (\<lambda>(p, s2).
             let s3 = s2\<lparr>os_ptable := (os_ptable s2)(pid := Some p)\<rparr>
             in rbind (sbrk s3 (to_signed stksize)) (\<lambda>(stack, s4).
                  let sp = wadd stack stksize
                  in case blank_loop (mem s4) stack sp of
                       None \<Rightarrow> Diverge
                     | Some m \<Rightarrow>
                         Ok (p, s4\<lparr>mem := m, procs := (procs s4)(p :=
                            \<lparr>p_pid = pid, p_name = take 15 name, p_state = ACTIVE, p_sp = sp,
                             p_stack = stack, p_stksize = stksize, p_priority = P_LOW,
                             p_waiting = None, p_pending = 0, p_msgtype = ANY,
                             p_message = None, p_next = None\<rparr>)\<rparr>))))"

definition os_init :: "kstate \<Rightarrow> kstate result" where
  "os_init s =
     rbind (init_proc s ''IDLE'' IDLE_STACK) (\<lambda>(p, s1).
       Ok (s1\<lparr>idle_proc := Some p,
               procs := (procs s1)(p := (procs s1 p)\<lparr>p_state := IDLING, p_priority := 3\<rparr>)\<rparr>))"

text \<open>\<open>memset(sp, 0, 4 * n)\<close> on a word-aligned \<open>sp\<close>: \<open>n\<close> words are cleared.\<close>

primrec memset_zero :: "(addr \<Rightarrow> 32 word) \<Rightarrow> addr \<Rightarrow> nat \<Rightarrow> (addr \<Rightarrow> 32 word)" where
  "memset_zero m sp 0 = m"
| "memset_zero m sp (Suc n) = (memset_zero m sp n)(wadd sp (4 * int n) := 0)"

text \<open>
  \<open>start\<close>. The first argument is the address of the system call stub \<open>exit\<close>, which
  the linker fixes; \<open>body\<close> is the address of the process body.
\<close>

definition start ::
  "32 word \<Rightarrow> kstate \<Rightarrow> string \<Rightarrow> 32 word \<Rightarrow> int \<Rightarrow> int \<Rightarrow> (int \<times> kstate) result" where
  "start exit_addr s name body arg stksize =
     rbind (init_proc s name (to_unsigned (roundup stksize 8))) (\<lambda>(p, s1).
       if os_current s1 \<noteq> None then Panic ''start() called after scheduler startup'' [] s1
       else
         let sp = wadd (p_sp (procs s1 p)) (- (4 * 16));
             m0 = memset_zero (mem s1) sp 16;
             m1 = m0(wadd sp (4 * PSR_SAVE) := INIT_PSR);
             m2 = m1(wadd sp (4 * PC_SAVE) := body AND NOT 1);
             m3 = m2(wadd sp (4 * LR_SAVE) := exit_addr);
             m4 = m3(wadd sp (4 * R0_SAVE) := word_of_int arg);
             s2 = s1\<lparr>mem := m4, procs := (procs s1)(p := (procs s1 p)\<lparr>p_sp := sp\<rparr>)\<rparr>
         in rbind (make_ready s2 p (p_priority (procs s2 p)))
              (\<lambda>s3. Ok (p_pid (procs s3 p), s3)))"

section \<open>System call interface\<close>

text \<open>
  The macro \<open>arg(i, t)\<close> casts word \<open>R0_SAVE + i\<close> of the saved frame to \<open>t\<close>: an
  \<open>int\<close> reads the word as signed, a \<open>message *\<close> as an address, 0 being NULL.
\<close>

definition arg_int :: "32 word \<Rightarrow> int" where
  "arg_int w = sint w"

definition arg_msg :: "32 word \<Rightarrow> mref option" where
  "arg_msg w = (if w = 0 then None else Some (uint w))"

text \<open>
  The body of \<open>system_call\<close> once the operand \<open>op\<close> of the \<open>svc\<close> instruction and
  the saved registers \<open>a0\<close>, \<open>a1\<close>, \<open>a2\<close> are known: save the stack pointer, switch
  on \<open>op\<close>, return the stack pointer of the process to run next. \<open>microbian_dump\<close> only
  prints, and what is printed is not part of the state.
\<close>

definition system_call_op ::
  "kstate \<Rightarrow> addr \<Rightarrow> int \<Rightarrow> 32 word \<Rightarrow> 32 word \<Rightarrow> 32 word \<Rightarrow> (addr \<times> kstate) result" where
  "system_call_op s psp op a0 a1 a2 =
     (case os_current s of
        None \<Rightarrow> Fault ''os_current is NULL''
      | Some cur \<Rightarrow>
          let s0 = s\<lparr>procs := (procs s)(cur := (procs s cur)\<lparr>p_sp := psp\<rparr>)\<rparr>
          in rbind
               (if op = SYS_YIELD then
                  rbind (make_ready s0 cur (p_priority (procs s0 cur))) (\<lambda>s1. Ok (choose_proc s1))
                else if op = SYS_SEND then
                  mini_send s0 (arg_int a0) (arg_int a1) (arg_msg a2)
                else if op = SYS_RECEIVE then
                  mini_receive s0 (arg_int a0) (arg_msg a1)
                else if op = SYS_SENDREC then
                  mini_sendrec s0 (arg_int a0) (arg_int a1) (arg_msg a2)
                else if op = SYS_EXIT then
                  Ok (choose_proc (s0\<lparr>procs := (procs s0)(cur := (procs s0 cur)\<lparr>p_state := DEAD\<rparr>)\<rparr>))
                else if op = SYS_DUMP then Ok s0
                else Panic ''Unknown syscall %d'' [op] s0)
               (\<lambda>s1. case os_current s1 of
                        None \<Rightarrow> Fault ''os_current is NULL''
                      | Some c \<Rightarrow> Ok (p_sp (procs s1 c), s1)))"

text \<open>
  \<open>system_call\<close>: the operand is the low byte of the halfword before the saved program
  counter, read from the program image \<open>code\<close>; the arguments are words 8, 9 and 10 of
  the frame at \<open>psp\<close>.
\<close>

definition system_call :: "(addr \<Rightarrow> 16 word) \<Rightarrow> kstate \<Rightarrow> addr \<Rightarrow> (addr \<times> kstate) result" where
  "system_call code s psp =
     (let pc = uint (mem s (psp + 4 * PC_SAVE));
          op = uint (code (pc - 2) AND 0xff)
      in system_call_op s psp op (mem s (psp + 4 * R0_SAVE)) (mem s (psp + 4 * R1_SAVE))
           (mem s (psp + 4 * R2_SAVE)))"

definition cxt_switch :: "kstate \<Rightarrow> addr \<Rightarrow> (addr \<times> kstate) result" where
  "cxt_switch s psp =
     (case os_current s of
        None \<Rightarrow> Fault ''os_current is NULL''
      | Some cur \<Rightarrow>
          let s0 = s\<lparr>procs := (procs s)(cur := (procs s cur)\<lparr>p_sp := psp\<rparr>)\<rparr>
          in rbind (make_ready s0 cur (p_priority (procs s0 cur))) (\<lambda>s1.
               let s2 = choose_proc s1
               in case os_current s2 of
                    None \<Rightarrow> Fault ''os_current is NULL''
                  | Some c \<Rightarrow> Ok (p_sp (procs s2 c), s2)))"

text \<open>
  \<open>os_start\<close> up to its idle loop: the boot thread becomes the idle process and yields;
  \<open>psp\<close> is the frame address with which that first trap enters the kernel.
\<close>

definition os_start :: "kstate \<Rightarrow> addr \<Rightarrow> (addr \<times> kstate) result" where
  "os_start s psp =
     (let s1 = s\<lparr>os_current := idle_proc s\<rparr>
      in case os_current s1 of
           None \<Rightarrow> Fault ''os_current is NULL''
         | Some i \<Rightarrow> system_call_op s1 psp SYS_YIELD 0 0 0)"

section \<open>Kernel entries\<close>

text \<open>
  The ways control enters the kernel once the scheduler runs: a system call trap, the
  PendSV exception (\<open>cxt_switch\<close>), an interrupt through \<open>default_handler\<close> or through a
  device handler that calls \<open>interrupt\<close> itself, and the calls \<open>connect\<close> and \<open>priority\<close>
  of the running process. Between two entries the running process may write its message
  buffers and its stack (\<open>K_user\<close>, with what it does to each).
\<close>

datatype kop =
    K_svc addr int "32 word" "32 word" "32 word"
  | K_pendsv addr
  | K_irq int
  | K_interrupt int
  | K_connect int
  | K_priority int
  | K_user "(mref \<Rightarrow> message) \<Rightarrow> (mref \<Rightarrow> message)"
      "(addr \<Rightarrow> 32 word) \<Rightarrow> (addr \<Rightarrow> 32 word)"

fun kstep :: "kstate \<Rightarrow> kop \<Rightarrow> kstate result" where
  "kstep s (K_svc psp op a0 a1 a2) =
     rbind (system_call_op s psp op a0 a1 a2) (\<lambda>(sp, s'). Ok s')"
| "kstep s (K_pendsv psp) = rbind (cxt_switch s psp) (\<lambda>(sp, s'). Ok s')"
| "kstep s (K_irq irq) = default_handler s irq"
| "kstep s (K_interrupt dest) = interrupt s dest"
| "kstep s (K_connect irq) = connect s irq"
| "kstep s (K_priority p) = priority s p"
| "kstep s (K_user f g) = Ok (s\<lparr>msgs := f (msgs s), mem := g (mem s)\<rparr>)"

fun krun :: "kstate \<Rightarrow> kop list \<Rightarrow> kstate result" where
  "krun s [] = Ok s"
| "krun s (k # ks) = rbind (kstep s k) (\<lambda>s'. krun s' ks)"

section \<open>Lists threaded through \<open>p_next\<close>\<close>


text \<open>The first \<open>n\<close> descriptors met when following \<open>p_next\<close> from \<open>p\<close>.\<close>

fun walk :: "(pref \<Rightarrow> proc) \<Rightarrow> nat \<Rightarrow> pref option \<Rightarrow> pref list" where
  "walk P 0 p = []"
| "walk P (Suc n) None = []"
| "walk P (Suc n) (Some a) = a # walk P n (p_next (P a))"

text \<open>The descriptors of the process table, and the descriptor of one PID.\<close>

definition descriptors :: "kstate \<Rightarrow> pref list" where
  "descriptors s = List.map_filter (os_ptable s) (map int [0 ..< nat (os_nprocs s)])"

definition noproc :: proc where
  "noproc = \<lparr>p_pid = 0, p_name = [], p_state = DEAD, p_sp = 0, p_stack = 0, p_stksize = 0,
     p_priority = 0, p_waiting = None, p_pending = 0, p_msgtype = 0, p_message = None,
     p_next = None\<rparr>"

definition desc :: "kstate \<Rightarrow> int \<Rightarrow> proc" where
  "desc s pid = (case os_ptable s pid of None \<Rightarrow> noproc | Some d \<Rightarrow> procs s d)"

text \<open>
  Descriptor uniqueness. \<open>on_list s first d\<close>: the descriptor \<open>d\<close> is on the list that
  starts at \<open>first\<close> (a list of a table of \<open>n\<close> descriptors shows each of its members within
  \<open>n + 1\<close> steps). \<open>n_ready\<close> counts the ready queues and \<open>n_sendq\<close> the sender queues
  that hold \<open>d\<close>.
\<close>

definition on_list :: "kstate \<Rightarrow> pref option \<Rightarrow> pref \<Rightarrow> bool" where
  "on_list s first d \<longleftrightarrow> d \<in> set (walk (procs s) (Suc (nat (os_nprocs s))) first)"

definition n_ready :: "kstate \<Rightarrow> pref \<Rightarrow> nat" where
  "n_ready s d = length (filter (\<lambda>i. on_list s (q_head (os_readyq s i)) d) [0, 1, 2])"

definition n_sendq :: "kstate \<Rightarrow> pref \<Rightarrow> nat" where
  "n_sendq s d = length (filter (\<lambda>r. on_list s (p_waiting (procs s r)) d) (descriptors s))"

definition desc_ok :: "kstate \<Rightarrow> pref \<Rightarrow> bool" where
  "desc_ok s d \<longleftrightarrow>
     n_ready s d + n_sendq s d \<le> 1 \<and>
     (case p_state (procs s d) of
        ACTIVE \<Rightarrow> os_current s = Some d \<or> n_ready s d = 1
      | SENDING \<Rightarrow> n_sendq s d = 1
      | SENDREC \<Rightarrow> n_sendq s d = 1
      | RECEIVING \<Rightarrow> n_ready s d + n_sendq s d = 0
      | IDLING \<Rightarrow> n_ready s d + n_sendq s d = 0
      | DEAD \<Rightarrow> True)"

definition desc_unique :: "kstate \<Rightarrow> bool" where
  "desc_unique s \<longleftrightarrow> list_all (desc_ok s) (descriptors s)"


text \<open>
  \<open>takes_interrupt d s k\<close>: the entry \<open>k\<close> is a \<open>receive\<close> by the process \<open>d\<close> whose
  filter admits INTERRUPT. \<open>quiet_run d s ks\<close> runs the entries \<open>ks\<close>, none of which is
  such a receive and each of which returns.
\<close>

definition takes_interrupt :: "pref \<Rightarrow> kstate \<Rightarrow> kop \<Rightarrow> bool" where
  "takes_interrupt d s k =
     (case k of
        K_svc psp op a0 a1 a2 \<Rightarrow>
          op = SYS_RECEIVE \<and> os_current s = Some d
          \<and> (arg_int a0 = ANY \<or> arg_int a0 = INTERRUPT)
      | _ \<Rightarrow> False)"

fun quiet_run :: "pref \<Rightarrow> kstate \<Rightarrow> kop list \<Rightarrow> kstate option" where
  "quiet_run d s [] = Some s"
| "quiet_run d s (k # ks) =
     (if takes_interrupt d s k then None
      else case kstep s k of Ok s' \<Rightarrow> quiet_run d s' ks | _ \<Rightarrow> None)"




section \<open>A concrete system\<close>

text \<open>
  The state at reset: the statics are zero, the arena runs from \<open>__end\<close> = 0x20001000 to
  \<open>__stack_limit\<close> = 0x20004000. \<open>booted\<close> is \<open>os_init\<close>, three calls of \<open>start\<close>
  (processes 1, 2 and 3 with stacks of 256 bytes; the stub \<open>exit\<close> is at 0x101) and
  \<open>os_start\<close>. The descriptors end up at 0x20003FC4 (idle), 0x20003F88, 0x20003F4C and
  0x20003F10. The board has 16 KB of memory, which hold \<open>os_ptable\<close>: a load
  \<open>os_ptable[i]\<close> with \<open>i\<close> outside -4096 .. 4095 is taken to fall outside it.
\<close>

definition reset_state :: kstate where
  "reset_state =
     \<lparr>break0 = 0x20001000, break2 = 0x20004000, os_ptable = (\<lambda>i. None), os_nprocs = 0,
      os_current = None, idle_proc = None,
      os_readyq = (\<lambda>i. \<lparr>q_head = None, q_tail = None\<rparr>), os_handler = (\<lambda>i. 0),
      procs = (\<lambda>a. noproc), msgs = (\<lambda>a. \<lparr>m_sender = 0, m_type = 0, m_body = []\<rparr>),
      mem = (\<lambda>a. 0), nvic = {}, pendsv = False, oob_loads = [],
      ptable_fault = (\<lambda>i. i < - 4096 \<or> 4096 \<le> i)\<rparr>"

fun ok_or :: "'a \<Rightarrow> 'a result \<Rightarrow> 'a" where
  "ok_or d (Ok x) = x"
| "ok_or d (Panic fmt args s) = d"
| "ok_or d (AssertFail c s) = d"
| "ok_or d (Fault w) = d"
| "ok_or d Diverge = d"

definition booted :: "kstate result" where
  "booted =
     rbind (os_init reset_state) (\<lambda>s1.
     rbind (start 0x101 s1 ''P1'' 0x201 0 256) (\<lambda>(pid1, s2).
     rbind (start 0x101 s2 ''P2'' 0x301 0 256) (\<lambda>(pid2, s3).
     rbind (start 0x101 s3 ''P3'' 0x401 0 256) (\<lambda>(pid3, s4).
     rbind (os_start s4 0x20001040) (\<lambda>(sp, s5). Ok s5)))))"




definition s_boot :: kstate where
  "s_boot = ok_or reset_state booted"

text \<open>
  Process 1 yields; processes 2 and 3 each write a message and send it to process 1, with
  types 10 and 20, and so queue on process 1 in that order; process 1 runs again.
\<close>

definition queue_two :: "kop list" where
  "queue_two =
     [K_svc 0x20001140 SYS_YIELD 0 0 0,
      K_user (\<lambda>M. M(0x20001200 := \<lparr>m_sender = 0, m_type = 0, m_body = [1, 1, 1]\<rparr>)) (\<lambda>m. m),
      K_svc 0x20001240 SYS_SEND 1 10 0x20001200,
      K_user (\<lambda>M. M(0x20001300 := \<lparr>m_sender = 0, m_type = 0, m_body = [2, 2]\<rparr>)) (\<lambda>m. m),
      K_svc 0x20001340 SYS_SEND 1 20 0x20001300]"

definition s_queued :: kstate where
  "s_queued = ok_or reset_state (krun s_boot queue_two)"

text \<open>Each of the three processes yields once, so that process 1 runs again.\<close>

definition three_yields :: "kop list" where
  "three_yields =
     [K_svc 0x20001140 SYS_YIELD 0 0 0,
      K_svc 0x20001240 SYS_YIELD 0 0 0,
      K_svc 0x20001340 SYS_YIELD 0 0 0]"

text \<open>
  Each of the three processes calls \<open>receive(ANY, buf)\<close> and blocks, so that the idle
  process runs.
\<close>

definition all_blocked :: "kop list" where
  "all_blocked =
     [K_svc 0x20001140 SYS_RECEIVE (word_of_int ANY) 0x20001100 0,
      K_svc 0x20001240 SYS_RECEIVE (word_of_int ANY) 0x20001200 0,
      K_svc 0x20001340 SYS_RECEIVE (word_of_int ANY) 0x20001300 0]"

definition s_idle :: kstate where
  "s_idle = ok_or reset_state (krun s_boot all_blocked)"





text \<open>
  With processes 2 and 3 queued on it, process 1 calls \<open>receive(20, buf)\<close> and then
  \<open>receive(ANY, buf)\<close>.
\<close>

definition s_recv1 :: kstate where
  "s_recv1 = ok_or reset_state (krun s_queued [K_svc 0x20001140 SYS_RECEIVE 20 0x20001100 0])"

definition s_recv2 :: kstate where
  "s_recv2 = ok_or reset_state
     (krun s_recv1 [K_svc 0x20001140 SYS_RECEIVE (word_of_int ANY) 0x20001100 0])"


text \<open>
  Process 1 writes a request and calls \<open>sendrec(2, 5, m)\<close> with \<open>m\<close> at 0x20001100; process
  2 runs and calls \<open>receive(5, m2)\<close> with \<open>m2\<close> at 0x20001200 (\<open>ping\<close>). Process 2 then
  writes a reply at 0x20001280 and sends it to process 1 with type REPLY (\<open>pong\<close>).
\<close>

definition ping :: "kop list" where
  "ping =
     [K_user (\<lambda>M. M(0x20001100 := \<lparr>m_sender = 0, m_type = 0, m_body = [7]\<rparr>)) (\<lambda>m. m),
      K_svc 0x20001140 SYS_SENDREC 2 5 0x20001100,
      K_svc 0x20001240 SYS_RECEIVE 5 0x20001200 0]"

definition s_ping :: kstate where
  "s_ping = ok_or reset_state (krun s_boot ping)"

definition pong :: "kop list" where
  "pong =
     [K_user (\<lambda>M. M(0x20001280 := \<lparr>m_sender = 0, m_type = 0, m_body = [8]\<rparr>)) (\<lambda>m. m),
      K_svc 0x20001240 SYS_SEND 1 (word_of_int REPLY) 0x20001280]"

section \<open>Properties\<close>

subsection \<open>Auxiliary facts\<close>

lemma rbind_Ok: "rbind r f = Ok y \<longleftrightarrow> (\<exists>x. r = Ok x \<and> f x = Ok y)"
  by (cases r) auto

lemma choose_proc_unfold:
  "choose_proc s =
     (case q_head (os_readyq s 0) of
        Some h \<Rightarrow>
          s\<lparr>os_current := Some h,
            os_readyq := (os_readyq s)(0 := (os_readyq s 0)\<lparr>q_head := p_next (procs s h)\<rparr>)\<rparr>
      | None \<Rightarrow>
         (case q_head (os_readyq s 1) of
            Some h \<Rightarrow>
              s\<lparr>os_current := Some h,
                os_readyq := (os_readyq s)(1 := (os_readyq s 1)\<lparr>q_head := p_next (procs s h)\<rparr>)\<rparr>
          | None \<Rightarrow>
             (case q_head (os_readyq s 2) of
                Some h \<Rightarrow>
                  s\<lparr>os_current := Some h,
                    os_readyq :=
                      (os_readyq s)(2 := (os_readyq s 2)\<lparr>q_head := p_next (procs s h)\<rparr>)\<rparr>
              | None \<Rightarrow> s\<lparr>os_current := idle_proc s\<rparr>)))"
  unfolding choose_proc_def
  by (simp add: choose_scan.simps [of s 0] choose_scan.simps [of s 1] choose_scan.simps [of s 2]
        choose_scan.simps [of s 3] split: option.split)

lemma choose_proc_procs: "procs (choose_proc s) = procs s"
  by (simp add: choose_proc_unfold split: option.split)

lemma wadd_id: "0 \<le> a + n \<Longrightarrow> a + n < 2 ^ 32 \<Longrightarrow> wadd a n = a + n"
  by (simp add: wadd_def)

lemma blank_loop_eq:
  "0 \<le> p \<Longrightarrow> sp \<le> 2 ^ 32 - 4 \<Longrightarrow> blank_loop m p sp = Some (blanked m p sp)"
proof (induction "nat (sp - p)" arbitrary: m p rule: less_induct)
  case less
  show ?case
  proof (cases "p < sp")
    case True
    have w: "wadd p 4 = p + 4" using less.prems True by (intro wadd_id) auto
    have "blank_loop m p sp = blank_loop (m(p := BLANK)) (p + 4) sp"
      using True by (subst blank_loop.simps) (simp add: w)
    also have "\<dots> = Some (blanked (m(p := BLANK)) (p + 4) sp)"
      using True less.prems by (intro less.hyps) auto
    also have "blanked (m(p := BLANK)) (p + 4) sp = blanked m p sp"
      unfolding blanked_def
    proof (rule ext)
      fix a
      show "(if p + 4 \<le> a \<and> a < sp \<and> (a - (p + 4)) mod 4 = 0 then BLANK
             else (m(p := BLANK)) a) =
            (if p \<le> a \<and> a < sp \<and> (a - p) mod 4 = 0 then BLANK else m a)"
        using True by auto presburger+
    qed
    finally show ?thesis .
  next
    case False
    then show ?thesis by (subst blank_loop.simps) (auto simp: blanked_def fun_eq_iff)
  qed
qed










text \<open>The equations that evaluate the kernel on a concrete state.\<close>

lemmas boot_eval = os_init_def init_proc_def new_proc_def sbrk_def start_def os_start_def
  system_call_op_def make_ready_def choose_proc_unfold
  to_unsigned_def to_signed_def roundup_def wadd_def blank_loop_eq
  NPROCS_def IDLE_STACK_def sizeof_proc_def P_LOW_def P_IDLE_def P_HANDLER_def ANY_def
  PSR_SAVE_def PC_SAVE_def LR_SAVE_def R0_SAVE_def SYS_YIELD_def Let_def

lemmas step_eval = mini_send_def mini_receive_def mini_sendrec_def check_dest_def
  ptable_load_def accept_def set_state_def deliver_def enqueue_def find_sender.simps
  last_proc.simps arg_int_def arg_msg_def cxt_switch_def interrupt_def default_handler_def
  connect_def priority_def enable_irq_def disable_irq_def reschedule_def
  SYS_SEND_def SYS_RECEIVE_def SYS_SENDREC_def SYS_EXIT_def SYS_DUMP_def
  INTERRUPT_def REPLY_def HARDWARE_def desc_def

subsection \<open>Chains\<close>








subsection \<open>Waking a receiver\<close>









subsection \<open>The pending flag\<close>

lemma make_ready_pending:
  "make_ready s p prio = Ok s' \<Longrightarrow> p_pending (procs s' a) = p_pending (procs s a)"
  by (auto simp: make_ready_def Let_def split: if_splits option.splits)

lemma enqueue_pending:
  "enqueue s d = Ok s' \<Longrightarrow> p_pending (procs s' a) = p_pending (procs s a)"
  by (auto simp: enqueue_def Let_def split: if_splits option.splits)

lemma check_dest_procs: "check_dest s dest = Ok (d, s1) \<Longrightarrow> procs s1 = procs s"
  by (auto simp: check_dest_def ptable_load_def Let_def split: if_splits option.splits)

lemma mini_send_pending:
  "mini_send s dest ty msg = Ok s' \<Longrightarrow> p_pending (procs s' a) = p_pending (procs s a)"
  by (auto simp: mini_send_def Let_def rbind_Ok choose_proc_procs set_state_def
        dest!: make_ready_pending [where a = a] enqueue_pending [where a = a] check_dest_procs
        split: option.splits if_splits)

lemma mini_sendrec_pending:
  "mini_sendrec s dest ty msg = Ok s' \<Longrightarrow> p_pending (procs s' a) = p_pending (procs s a)"
  by (auto simp: mini_sendrec_def Let_def rbind_Ok choose_proc_procs set_state_def
        dest!: make_ready_pending [where a = a] enqueue_pending [where a = a] check_dest_procs
        split: option.splits if_splits)

lemma mini_receive_pending:
  "mini_receive s ty msg = Ok s' \<Longrightarrow>
   \<not> (os_current s = Some a \<and> (ty = ANY \<or> ty = INTERRUPT)) \<Longrightarrow>
   p_pending (procs s' a) = p_pending (procs s a)"
  by (auto simp: mini_receive_def Let_def choose_proc_procs set_state_def
        dest!: make_ready_pending [where a = a]
        split: option.splits if_splits prod.splits)

lemma ptable_load_Ok: "ptable_load s dest = Ok (pd, s1) \<Longrightarrow> procs s1 = procs s"
  by (auto simp: ptable_load_def split: if_splits)

lemma interrupt_pending:
  assumes i: "interrupt s dest = Ok s'" and p: "p_pending (procs s a) \<noteq> 0"
  shows "p_pending (procs s' a) \<noteq> 0"
proof -
  from i obtain pd s1 where l: "ptable_load s dest = Ok (pd, s1)"
    and r: "(case pd of
               None \<Rightarrow> Fault ''pdest is NULL''
             | Some d \<Rightarrow>
                 if accept (procs s1 d) INTERRUPT then
                   rbind
                     (make_ready
                        (s1\<lparr>msgs := deliver (msgs s1) (p_message (procs s1 d)) HARDWARE
                                      INTERRUPT None\<rparr>)
                        d P_HANDLER)
                     (\<lambda>s2. case os_current s2 of
                              None \<Rightarrow> Fault ''os_current is NULL''
                            | Some cur \<Rightarrow>
                                if 0 < p_priority (procs s2 cur) then Ok (reschedule s2)
                                else Ok s2)
                 else Ok (s1\<lparr>procs := (procs s1)(d := (procs s1 d)\<lparr>p_pending := 1\<rparr>)\<rparr>))
            = Ok s'"
    by (auto simp: interrupt_def rbind_Ok)
  from l have ps: "procs s1 = procs s" by (rule ptable_load_Ok)
  from r p ps show ?thesis
    by (auto simp: rbind_Ok reschedule_def dest!: make_ready_pending [where a = a]
          split: option.splits if_splits)
qed

lemma system_call_op_pending:
  "system_call_op s psp op a0 a1 a2 = Ok (sp, s') \<Longrightarrow>
   \<not> (op = SYS_RECEIVE \<and> os_current s = Some a \<and> (arg_int a0 = ANY \<or> arg_int a0 = INTERRUPT)) \<Longrightarrow>
   p_pending (procs s' a) = p_pending (procs s a)"
  by (auto simp: system_call_op_def Let_def rbind_Ok choose_proc_procs
        dest!: make_ready_pending [where a = a] mini_send_pending [where a = a]
          mini_sendrec_pending [where a = a] mini_receive_pending [where a = a]
        split: option.splits if_splits)

lemma cxt_switch_pending:
  "cxt_switch s psp = Ok (sp, s') \<Longrightarrow> p_pending (procs s' a) = p_pending (procs s a)"
  by (auto simp: cxt_switch_def Let_def rbind_Ok choose_proc_procs
        dest!: make_ready_pending [where a = a] split: option.splits if_splits)

lemma kstep_pending:
  "kstep s k = Ok s' \<Longrightarrow> \<not> takes_interrupt d s k \<Longrightarrow> p_pending (procs s d) \<noteq> 0 \<Longrightarrow>
   p_pending (procs s' d) \<noteq> 0"
proof (cases k)
  case (K_svc psp op a0 a1 a2)
  assume "kstep s k = Ok s'" "\<not> takes_interrupt d s k" "p_pending (procs s d) \<noteq> 0"
  with K_svc show ?thesis
    by (auto simp: rbind_Ok takes_interrupt_def dest!: system_call_op_pending [where a = d])
next
  case (K_pendsv psp)
  assume "kstep s k = Ok s'" "p_pending (procs s d) \<noteq> 0"
  with K_pendsv show ?thesis by (auto simp: rbind_Ok dest!: cxt_switch_pending [where a = d])
next
  case (K_irq irq)
  assume "kstep s k = Ok s'" "p_pending (procs s d) \<noteq> 0"
  with K_irq show ?thesis
    by (auto simp: default_handler_def disable_irq_def Let_def split: if_splits
          dest!: interrupt_pending [where a = d])
next
  case (K_interrupt dest)
  assume "kstep s k = Ok s'" "p_pending (procs s d) \<noteq> 0"
  with K_interrupt show ?thesis by (auto dest!: interrupt_pending [where a = d])
next
  case (K_connect irq)
  assume "kstep s k = Ok s'" "p_pending (procs s d) \<noteq> 0"
  with K_connect show ?thesis
    by (auto simp: connect_def enable_irq_def Let_def split: if_splits option.splits)
next
  case (K_priority p)
  assume "kstep s k = Ok s'" "p_pending (procs s d) \<noteq> 0"
  with K_priority show ?thesis
    by (auto simp: priority_def split: if_splits option.splits)
next
  case (K_user f g)
  assume "kstep s k = Ok s'" "p_pending (procs s d) \<noteq> 0"
  with K_user show ?thesis by auto
qed

lemma quiet_run_pending:
  "quiet_run d s ks = Some s' \<Longrightarrow> p_pending (procs s d) \<noteq> 0 \<Longrightarrow> p_pending (procs s' d) \<noteq> 0"
proof (induction ks arbitrary: s)
  case Nil
  then show ?case by simp
next
  case (Cons k ks)
  from Cons.prems(1) obtain s1 where k: "\<not> takes_interrupt d s k" "kstep s k = Ok s1"
    and r: "quiet_run d s1 ks = Some s'"
    by (auto split: if_splits result.splits)
  from k(2) k(1) Cons.prems(2) have "p_pending (procs s1 d) \<noteq> 0" by (rule kstep_pending)
  with r show ?case by (rule Cons.IH)
qed

subsection \<open>The idle process\<close>


















subsection \<open>The concrete system\<close>

text \<open>The state \<open>s_boot\<close>, field by field (the stacks apart).\<close>

lemma s_boot_fields:
  "booted = Ok s_boot"
  "os_current s_boot = Some 0x20003F88" "idle_proc s_boot = Some 0x20003FC4"
  "os_nprocs s_boot = 4" "oob_loads s_boot = []" "pendsv s_boot = False"
  "ptable_fault s_boot = (\<lambda>i. i < - 4096 \<or> 4096 \<le> i)"
  "break0 s_boot = 0x20001380" "break2 s_boot = 0x20003F10"
  "os_ptable s_boot =
     (\<lambda>i. None)(0 := Some 0x20003FC4, 1 := Some 0x20003F88, 2 := Some 0x20003F4C,
       3 := Some 0x20003F10)"
  "os_readyq s_boot =
     (\<lambda>i. \<lparr>q_head = None, q_tail = None\<rparr>)
       (2 := \<lparr>q_head = Some 0x20003F4C, q_tail = Some 0x20003F10\<rparr>)"
  "os_handler s_boot = (\<lambda>i. 0)"
  "msgs s_boot = (\<lambda>a. \<lparr>m_sender = 0, m_type = 0, m_body = []\<rparr>)"
  "procs s_boot 0x20003FC4 =
     \<lparr>p_pid = 0, p_name = ''IDLE'', p_state = IDLING, p_sp = 0x20001040,
      p_stack = 0x20001000, p_stksize = 128, p_priority = 3, p_waiting = None,
      p_pending = 0, p_msgtype = ANY, p_message = None, p_next = None\<rparr>"
  "procs s_boot 0x20003F88 =
     \<lparr>p_pid = 1, p_name = ''P1'', p_state = ACTIVE, p_sp = 0x20001140,
      p_stack = 0x20001080, p_stksize = 256, p_priority = 2, p_waiting = None,
      p_pending = 0, p_msgtype = ANY, p_message = None, p_next = Some 0x20003F4C\<rparr>"
  "procs s_boot 0x20003F4C =
     \<lparr>p_pid = 2, p_name = ''P2'', p_state = ACTIVE, p_sp = 0x20001240,
      p_stack = 0x20001180, p_stksize = 256, p_priority = 2, p_waiting = None,
      p_pending = 0, p_msgtype = ANY, p_message = None, p_next = Some 0x20003F10\<rparr>"
  "procs s_boot 0x20003F10 =
     \<lparr>p_pid = 3, p_name = ''P3'', p_state = ACTIVE, p_sp = 0x20001340,
      p_stack = 0x20001280, p_stksize = 256, p_priority = 2, p_waiting = None,
      p_pending = 0, p_msgtype = ANY, p_message = None, p_next = None\<rparr>"
  by (simp_all add: s_boot_def booted_def reset_state_def noproc_def boot_eval)

lemma s_boot_queue:
  "os_current s_boot = Some 0x20003F88"
  "q_head (os_readyq s_boot 0) = None" "q_head (os_readyq s_boot 1) = None"
  "q_head (os_readyq s_boot 2) = Some 0x20003F4C"
  "q_tail (os_readyq s_boot 2) = Some 0x20003F10"
  "p_next (procs s_boot 0x20003F4C) = Some 0x20003F10"
  "p_next (procs s_boot 0x20003F10) = None"
  by (simp_all add: s_boot_fields)

lemma s_idle_queue:
  "os_current s_idle = Some 0x20003FC4" "idle_proc s_idle = Some 0x20003FC4"
  "q_head (os_readyq s_idle 0) = None" "q_head (os_readyq s_idle 1) = None"
  "q_head (os_readyq s_idle 2) = None"
  "p_pid (procs s_idle 0x20003FC4) = 0"
  "p_state (procs s_idle 0x20003F88) = RECEIVING"
  by (simp_all add: s_idle_def all_blocked_def boot_eval step_eval s_boot_fields)

lemma s_boot_handler:
  "os_handler s_boot 7 = 0" "p_pid (procs s_boot 0x20003F88) = 1"
  by (simp_all add: s_boot_fields)

lemma s_boot_table:
  "os_ptable s_boot 1 = Some 0x20003F88" "p_state (procs s_boot 0x20003F88) = ACTIVE"
  by (simp_all add: s_boot_fields)





lemma s_queued_fields:
  "krun s_boot queue_two = Ok s_queued"
  "os_current s_queued = Some 0x20003F88" "idle_proc s_queued = Some 0x20003FC4"
  "os_nprocs s_queued = 4"
  "os_ptable s_queued =
     (\<lambda>i. None)(0 := Some 0x20003FC4, 1 := Some 0x20003F88, 2 := Some 0x20003F4C,
       3 := Some 0x20003F10)"
  "os_readyq s_queued =
     (\<lambda>i. \<lparr>q_head = None, q_tail = None\<rparr>)
       (2 := \<lparr>q_head = None, q_tail = Some 0x20003F88\<rparr>)"
  "msgs s_queued =
     (\<lambda>a. \<lparr>m_sender = 0, m_type = 0, m_body = []\<rparr>)
       (0x20001200 := \<lparr>m_sender = 0, m_type = 0, m_body = [1, 1, 1]\<rparr>,
        0x20001300 := \<lparr>m_sender = 0, m_type = 0, m_body = [2, 2]\<rparr>)"
  "procs s_queued 0x20003FC4 =
     \<lparr>p_pid = 0, p_name = ''IDLE'', p_state = IDLING, p_sp = 0x20001040,
      p_stack = 0x20001000, p_stksize = 128, p_priority = 3, p_waiting = None,
      p_pending = 0, p_msgtype = ANY, p_message = None, p_next = None\<rparr>"
  "procs s_queued 0x20003F88 =
     \<lparr>p_pid = 1, p_name = ''P1'', p_state = ACTIVE, p_sp = 0x20001140,
      p_stack = 0x20001080, p_stksize = 256, p_priority = 2, p_waiting = Some 0x20003F4C,
      p_pending = 0, p_msgtype = ANY, p_message = None, p_next = None\<rparr>"
  "procs s_queued 0x20003F4C =
     \<lparr>p_pid = 2, p_name = ''P2'', p_state = SENDING, p_sp = 0x20001240,
      p_stack = 0x20001180, p_stksize = 256, p_priority = 2, p_waiting = None,
      p_pending = 0, p_msgtype = 10, p_message = Some 0x20001200,
      p_next = Some 0x20003F10\<rparr>"
  "procs s_queued 0x20003F10 =
     \<lparr>p_pid = 3, p_name = ''P3'', p_state = SENDING, p_sp = 0x20001340,
      p_stack = 0x20001280, p_stksize = 256, p_priority = 2, p_waiting = None,
      p_pending = 0, p_msgtype = 20, p_message = Some 0x20001300, p_next = None\<rparr>"
  by (simp_all add: s_queued_def queue_two_def boot_eval step_eval s_boot_fields)

lemma nat5: "(5::nat) = Suc (Suc (Suc (Suc (Suc 0))))"
  by simp

lemmas inv_eval = desc_unique_def desc_ok_def n_ready_def n_sendq_def on_list_def
  descriptors_def List.map_filter_simps

lemma upt_4: "[0..<4] = [0, 1, 2, 3]"
  by (simp add: upt_rec)



subsection \<open>The claims\<close>

text \<open>
  C10. \<open>deliver(buf, src, type, msg)\<close> writes nothing at all when \<open>buf\<close> is NULL, and
  the surrounding operation still performs its state transitions: a \<open>mini_receive\<close> that
  finds an interrupt pending clears the flag and leaves the current process running with
  every message buffer as it was. When only the source pointer \<open>msg\<close> is NULL, the
  header fields \<open>m_sender\<close> and \<open>m_type\<close> of \<open>buf\<close> are written, every body byte of
  \<open>buf\<close> is unchanged, and no other buffer is touched.
\<close>

theorem deliver_null_pointers:
  "deliver M None src ty msg = M
   \<and> (os_current s = Some cur \<and> p_pending (procs s cur) \<noteq> 0 \<and> (ty = ANY \<or> ty = INTERRUPT)
        \<longrightarrow> (\<exists>s'. mini_receive s ty None = Ok s' \<and> msgs s' = msgs s
                  \<and> p_pending (procs s' cur) = 0 \<and> os_current s' = Some cur))
   \<and> m_sender (deliver M (Some b) src ty None b) = src
   \<and> m_type (deliver M (Some b) src ty None b) = ty
   \<and> m_body (deliver M (Some b) src ty None b) = m_body (M b)
   \<and> (\<forall>a. a \<noteq> b \<longrightarrow> deliver M (Some b) src ty None a = M a)"
  by (simp add: deliver_def mini_receive_def)

theorem deliver_null_pointers_witness:
  "\<exists>s'. mini_receive
          \<lparr>break0 = 0, break2 = 0, os_ptable = (\<lambda>i. None), os_nprocs = 0,
           os_current = Some 100, idle_proc = None,
           os_readyq = (\<lambda>i. \<lparr>q_head = None, q_tail = None\<rparr>), os_handler = (\<lambda>i. 0),
           procs = (\<lambda>a. \<lparr>p_pid = 1, p_name = ''H'', p_state = ACTIVE, p_sp = 0, p_stack = 0,
                          p_stksize = 0, p_priority = 0, p_waiting = None, p_pending = 1,
                          p_msgtype = ANY, p_message = None, p_next = None\<rparr>),
           msgs = (\<lambda>a. \<lparr>m_sender = 7, m_type = 8, m_body = [1, 2]\<rparr>), mem = (\<lambda>a. 0),
           nvic = {}, pendsv = False, oob_loads = [],
           ptable_fault = (\<lambda>i. False)\<rparr> ANY None = Ok s'
        \<and> msgs s' = (\<lambda>a. \<lparr>m_sender = 7, m_type = 8, m_body = [1, 2]\<rparr>)
        \<and> p_pending (procs s' 100) = 0 \<and> os_current s' = Some 100"
  using deliver_null_pointers
    [where ty = ANY and cur = 100 and s =
        "\<lparr>break0 = 0, break2 = 0, os_ptable = (\<lambda>i. None), os_nprocs = 0,
           os_current = Some 100, idle_proc = None,
           os_readyq = (\<lambda>i. \<lparr>q_head = None, q_tail = None\<rparr>), os_handler = (\<lambda>i. 0),
           procs = (\<lambda>a. \<lparr>p_pid = 1, p_name = ''H'', p_state = ACTIVE, p_sp = 0, p_stack = 0,
                          p_stksize = 0, p_priority = 0, p_waiting = None, p_pending = 1,
                          p_msgtype = ANY, p_message = None, p_next = None\<rparr>),
           msgs = (\<lambda>a. \<lparr>m_sender = 7, m_type = 8, m_body = [1, 2]\<rparr>), mem = (\<lambda>a. 0),
           nvic = {}, pendsv = False, oob_loads = [],
           ptable_fault = (\<lambda>i. False)\<rparr>"]
  by simp




text \<open>
  C9. When the active interrupt number is negative, or the entry of \<open>os_handler\<close> for it is
  still 0, \<open>default_handler\<close> panics and delivers nothing; with a non-zero entry it
  disables the line and calls \<open>interrupt\<close> for that entry. So \<open>interrupt\<close> is never
  called for PID 0 from here: once the process with PID 0 has connected itself to a line,
  the entry is 0 and an interrupt on that line panics.
\<close>

theorem default_handler_unregistered:
  "(irq < 0 \<or> (irq < 32 \<and> os_handler s irq = 0)
      \<longrightarrow> default_handler s irq = Panic ''Unexpected interrupt %d'' [irq] s)
   \<and> (0 \<le> irq \<and> irq < 32 \<and> os_handler s irq \<noteq> 0
      \<longrightarrow> default_handler s irq = interrupt (disable_irq s irq) (os_handler s irq))
   \<and> (os_current s = Some cur \<and> p_pid (procs s cur) = 0 \<and> 0 \<le> irq \<and> irq < 32
      \<longrightarrow> (\<exists>s'. connect s irq = Ok s' \<and> os_handler s' irq = 0
              \<and> default_handler s' irq = Panic ''Unexpected interrupt %d'' [irq] s'))"
  by (auto simp: default_handler_def connect_def enable_irq_def Let_def)

theorem default_handler_unregistered_witness:
  "default_handler s_boot 7 = Panic ''Unexpected interrupt %d'' [7] s_boot
   \<and> default_handler s_boot (- 3) = Panic ''Unexpected interrupt %d'' [- 3] s_boot
   \<and> default_handler (ok_or s_boot (connect s_boot 7)) 7
       = interrupt (disable_irq (ok_or s_boot (connect s_boot 7)) 7) 1
   \<and> (\<exists>s'. connect s_idle 7 = Ok s' \<and> os_handler s' 7 = 0
          \<and> default_handler s' 7 = Panic ''Unexpected interrupt %d'' [7] s')"
proof -
  have c: "os_handler (ok_or s_boot (connect s_boot 7)) 7 = 1"
    by (simp add: connect_def enable_irq_def s_boot_queue s_boot_handler)
  show ?thesis
    using default_handler_unregistered [of 7 s_boot]
      default_handler_unregistered [of "- 3" s_boot]
      default_handler_unregistered [of 7 "ok_or s_boot (connect s_boot 7)"]
      default_handler_unregistered [of 7 s_idle "0x20003FC4"]
    by (simp add: s_boot_handler s_idle_queue c)
qed

text \<open>
  C6. If \<open>interrupt(dest)\<close> finds the destination not in a receive that accepts
  INTERRUPT, it only sets the destination's pending flag. After any kernel entries that
  return and are not a receive by that process with filter ANY or INTERRUPT, such a receive
  by it returns at once: the flag is cleared, the process is still \<open>os_current\<close>, the
  sender queue and every other descriptor are as before, and its buffer has sender
  HARDWARE, type INTERRUPT and the body it had.
\<close>

theorem pending_interrupt_delivered:
  assumes dest: "0 \<le> dest" "dest < NPROCS" "os_ptable s dest = Some d"
    and na: "\<not> accept (procs s d) INTERRUPT"
    and ty: "ty = ANY \<or> ty = INTERRUPT"
  shows "\<exists>s1. interrupt s dest = Ok s1
           \<and> s1 = s\<lparr>procs := (procs s)(d := (procs s d)\<lparr>p_pending := 1\<rparr>)\<rparr>
           \<and> (\<forall>ks s2. quiet_run d s1 ks = Some s2 \<and> os_current s2 = Some d \<longrightarrow>
                 mini_receive s2 ty buf =
                   Ok (s2\<lparr>procs := (procs s2)(d := (procs s2 d)\<lparr>p_pending := 0\<rparr>),
                          msgs := deliver (msgs s2) buf HARDWARE INTERRUPT None\<rparr>)
                 \<and> (\<forall>b. buf = Some b \<longrightarrow>
                        m_sender (deliver (msgs s2) buf HARDWARE INTERRUPT None b) = HARDWARE
                      \<and> m_type (deliver (msgs s2) buf HARDWARE INTERRUPT None b) = INTERRUPT
                      \<and> m_body (deliver (msgs s2) buf HARDWARE INTERRUPT None b)
                          = m_body (msgs s2 b)))"
proof -
  let ?s1 = "s\<lparr>procs := (procs s)(d := (procs s d)\<lparr>p_pending := 1\<rparr>)\<rparr>"
  have i: "interrupt s dest = Ok ?s1"
    using dest na by (simp add: interrupt_def ptable_load_def)
  have r: "mini_receive s2 ty buf =
          Ok (s2\<lparr>procs := (procs s2)(d := (procs s2 d)\<lparr>p_pending := 0\<rparr>),
                 msgs := deliver (msgs s2) buf HARDWARE INTERRUPT None\<rparr>)"
    if q: "quiet_run d ?s1 ks = Some s2" and c: "os_current s2 = Some d" for ks s2
  proof -
    have "p_pending (procs ?s1 d) \<noteq> 0" by simp
    with q have "p_pending (procs s2 d) \<noteq> 0" by (rule quiet_run_pending)
    with c ty show ?thesis by (simp add: mini_receive_def)
  qed
  have d: "m_sender (deliver M (Some b) HARDWARE INTERRUPT None b) = HARDWARE
        \<and> m_type (deliver M (Some b) HARDWARE INTERRUPT None b) = INTERRUPT
        \<and> m_body (deliver M (Some b) HARDWARE INTERRUPT None b) = m_body (M b)" for M b
    by (simp add: deliver_def)
  show ?thesis
  proof (intro exI conjI allI impI)
    show "interrupt s dest = Ok ?s1" by (rule i)
  qed (auto simp: r d)
qed

theorem pending_interrupt_delivered_witness:
  "\<exists>s1 s2. interrupt s_boot 1 = Ok s1
      \<and> p_pending (procs s1 0x20003F88) = 1
      \<and> quiet_run 0x20003F88 s1 three_yields = Some s2
      \<and> os_current s2 = Some 0x20003F88
      \<and> mini_receive s2 ANY (Some 0x20001100) =
          Ok (s2\<lparr>procs := (procs s2)(0x20003F88 := (procs s2 0x20003F88)\<lparr>p_pending := 0\<rparr>),
                 msgs := deliver (msgs s2) (Some 0x20001100) HARDWARE INTERRUPT None\<rparr>)
      \<and> m_sender (deliver (msgs s2) (Some 0x20001100) HARDWARE INTERRUPT None 0x20001100)
          = HARDWARE
      \<and> m_type (deliver (msgs s2) (Some 0x20001100) HARDWARE INTERRUPT None 0x20001100)
          = INTERRUPT"
proof -
  have h: "0 \<le> (1::int)" "(1::int) < NPROCS" "\<not> accept (procs s_boot 0x20003F88) INTERRUPT"
    "ANY = ANY \<or> ANY = INTERRUPT"
    by (simp_all add: NPROCS_def accept_def s_boot_table)
  let ?s1 = "s_boot\<lparr>procs := (procs s_boot)(0x20003F88 :=
               (procs s_boot 0x20003F88)\<lparr>p_pending := 1\<rparr>)\<rparr>"
  have q: "\<exists>s2. quiet_run 0x20003F88 ?s1 three_yields = Some s2
             \<and> os_current s2 = Some 0x20003F88"
    by (simp add: three_yields_def takes_interrupt_def boot_eval step_eval s_boot_fields)
  from pending_interrupt_delivered [OF h(1) h(2) s_boot_table(1) h(3) h(4),
      where buf = "Some 0x20001100"] q
  show ?thesis by auto
qed









text \<open>
  C1. What \<open>mini_receive\<close> does to a queued SENDREC sender, run on \<open>ping\<close> and \<open>pong\<close>:
  process 1, taken from the sender queue of process 2, becomes RECEIVING with filter REPLY,
  and its buffer reference is 0x20001200, the buffer process 2 passed to \<open>receive\<close>, not
  0x20001100, the buffer process 1 passed to \<open>sendrec\<close>. The reply that process 2 then
  sends is copied to 0x20001200; the buffer of process 1 still holds its own request.
\<close>

theorem sendrec_reply_buffer_scenario:
  "krun s_boot ping = Ok s_ping
   \<and> p_state (desc s_ping 1) = RECEIVING \<and> p_msgtype (desc s_ping 1) = REPLY
   \<and> p_message (desc s_ping 1) = Some 0x20001200
   \<and> msgs s_ping 0x20001200 = \<lparr>m_sender = 1, m_type = 5, m_body = [7]\<rparr>
   \<and> (case krun s_ping pong of
         Ok s' \<Rightarrow>
           msgs s' 0x20001200 = \<lparr>m_sender = 2, m_type = REPLY, m_body = [8]\<rparr>
           \<and> msgs s' 0x20001100 = \<lparr>m_sender = 0, m_type = 0, m_body = [7]\<rparr>
           \<and> p_state (desc s' 1) = ACTIVE
       | _ \<Rightarrow> False)"
  by (simp add: s_ping_def ping_def pong_def boot_eval step_eval s_boot_fields)

text \<open>
  C2. Processes 2 and 3 are queued on process 1, in that order, with types 10 and 20.
  \<open>receive(20, buf)\<close> by process 1 copies the message of process 3 to \<open>buf\<close> with sender
  3 and type 20 and makes process 3 ACTIVE, but the sender queue of process 1 still holds
  processes 2 and 3. \<open>receive(ANY, buf)\<close> then delivers the message of process 2, after
  which the sender queue holds processes 3 and 2. A further \<open>receive(ANY, buf)\<close> copies
  the message of process 3 to \<open>buf\<close> a second time, and the assertion on the state of
  that sender fails.
\<close>

theorem receive_midqueue_scenario:
  "krun s_boot queue_two = Ok s_queued
   \<and> os_current s_queued = Some 0x20003F88
   \<and> walk (procs s_queued) 5 (p_waiting (desc s_queued 1)) = [0x20003F4C, 0x20003F10]
   \<and> p_msgtype (desc s_queued 2) = 10 \<and> p_msgtype (desc s_queued 3) = 20
   \<and> krun s_queued [K_svc 0x20001140 SYS_RECEIVE 20 0x20001100 0] = Ok s_recv1
   \<and> os_current s_recv1 = Some 0x20003F88
   \<and> msgs s_recv1 0x20001100 = \<lparr>m_sender = 3, m_type = 20, m_body = [2, 2]\<rparr>
   \<and> p_state (desc s_recv1 3) = ACTIVE
   \<and> walk (procs s_recv1) 5 (p_waiting (desc s_recv1 1)) = [0x20003F4C, 0x20003F10]
   \<and> krun s_recv1 [K_svc 0x20001140 SYS_RECEIVE (word_of_int ANY) 0x20001100 0] = Ok s_recv2
   \<and> os_current s_recv2 = Some 0x20003F88
   \<and> msgs s_recv2 0x20001100 = \<lparr>m_sender = 2, m_type = 10, m_body = [1, 1, 1]\<rparr>
   \<and> walk (procs s_recv2) 5 (p_waiting (desc s_recv2 1)) = [0x20003F10, 0x20003F4C]
   \<and> (case krun s_recv2 [K_svc 0x20001140 SYS_RECEIVE (word_of_int ANY) 0x20001100 0] of
         AssertFail c s3 \<Rightarrow>
           msgs s3 0x20001100 = \<lparr>m_sender = 3, m_type = 20, m_body = [2, 2]\<rparr>
       | _ \<Rightarrow> False)"
  by (simp add: s_recv2_def s_recv1_def boot_eval step_eval s_queued_fields nat5)

text \<open>
  C3. Descriptor uniqueness holds after boot and with processes 2 and 3 queued on process
  1. After \<open>receive(20, buf)\<close> by process 1 it fails: process 3 is ACTIVE, is not
  \<open>os_current\<close>, and is on ready queue 2 and on the sender queue of process 1.
\<close>

theorem descriptor_on_two_lists_scenario:
  "booted = Ok s_boot \<and> desc_unique s_boot
   \<and> krun s_boot queue_two = Ok s_queued \<and> desc_unique s_queued
   \<and> krun s_queued [K_svc 0x20001140 SYS_RECEIVE 20 0x20001100 0] = Ok s_recv1
   \<and> \<not> desc_unique s_recv1
   \<and> p_state (procs s_recv1 0x20003F10) = ACTIVE \<and> os_current s_recv1 = Some 0x20003F88
   \<and> n_ready s_recv1 0x20003F10 = 1 \<and> n_sendq s_recv1 0x20003F10 = 1"
  by (simp add: s_recv1_def boot_eval step_eval s_boot_fields s_queued_fields inv_eval upt_4
        nat5)

text \<open>
  C5. \<open>send(99, 0, m)\<close> with four processes created panics with the format
  \<open>Sending to a non-existent process %d\<close> and the argument 99, and nothing of the state
  has changed, but \<open>os_ptable\<close>, of 32 entries, has been read at index 99 before the
  panic; \<open>sendrec\<close> to -1 likewise reads index -1. A destination 5, inside the table and
  not created, panics with no load out of range.
\<close>

theorem send_to_99_scenario:
  "mini_send s_boot 99 0 (Some 0x20001100)
     = Panic ''Sending to a non-existent process %d'' [99] (s_boot\<lparr>oob_loads := [99]\<rparr>)
   \<and> mini_sendrec s_boot (- 1) 0 (Some 0x20001100)
     = Panic ''Sending to a non-existent process %d'' [- 1] (s_boot\<lparr>oob_loads := [- 1]\<rparr>)
   \<and> mini_send s_boot 5 0 (Some 0x20001100)
     = Panic ''Sending to a non-existent process %d'' [5] s_boot"
  by (simp add: mini_send_def mini_sendrec_def check_dest_def ptable_load_def NPROCS_def
        s_boot_fields)


end
